theory Spec2Isabelle
  imports Complex_Main
begin

section \<open>The interactive question-answering front end\<close>

text \<open>
  A shallow embedding of \<^verbatim>\<open>scripts/pipeline_transformers/interactive.py\<close>: the choice of
  the retrieval backend made at start-up, the query command \<^verbatim>\<open>process\<close>, the help command
  \<^verbatim>\<open>usage\<close> and the namespace handed to the interactive console.

  The script's collaborators are libraries outside the repository's source: the two pipeline
  classes, the wall clock, \<^verbatim>\<open>termcolor.colored\<close>, \<^verbatim>\<open>prettytable\<close> and the \<^verbatim>\<open>%\<close>
  formatting of floats. They are parameters of the model, collected in an environment record.
  Python's floats are idealised as reals; no result below depends on a numeric value.
\<close>

subsection \<open>Data\<close>

text \<open>
  The dictionary under the key \<^verbatim>\<open>'context'\<close> of a prediction, with its keys
  \<^verbatim>\<open>'text'\<close>, \<^verbatim>\<open>'start'\<close> and \<^verbatim>\<open>'end'\<close>. The offsets are Python integers.
\<close>

record context_c =
  text_c :: string
  start_c :: int
  end_c :: int

text \<open>
  One prediction of the pipeline: a dictionary with the keys \<^verbatim>\<open>'span'\<close>, \<^verbatim>\<open>'doc_id'\<close>,
  \<^verbatim>\<open>'span_score'\<close>, \<^verbatim>\<open>'doc_score'\<close> and, when the pipeline was asked for contexts,
  \<^verbatim>\<open>'context'\<close>. A missing \<^verbatim>\<open>'context'\<close> key is \<open>None\<close>.
\<close>

record prediction =
  span_p :: string
  doc_id :: string
  span_score :: real
  doc_score :: real
  context_p :: "context_c option"

text \<open>The two values argparse accepts for \<^verbatim>\<open>--retriever\<close>.\<close>

datatype retriever = Tfidf | SeriniBm25

text \<open>
  What leaves \<^verbatim>\<open>process\<close> by an exception: an exception of the pipeline, passing through
  untouched, or the \<^verbatim>\<open>KeyError\<close> of a dictionary lookup in the script itself.
\<close>

datatype 'e failure = Raised 'e | KeyError string

text \<open>A cell of a table row: the rank is an integer, every other cell a string.\<close>

datatype cell = IntCell int | StrCell string

text \<open>
  What the script does to the outside, in order: a call of \<^verbatim>\<open>pipeline.process\<close> with its
  four arguments, a line given to \<^verbatim>\<open>logger.info\<close>, a string given to \<^verbatim>\<open>print\<close>, and a
  \<^verbatim>\<open>PrettyTable\<close> (field names and rows) given to \<^verbatim>\<open>print\<close>.
\<close>

datatype event =
    Called string int int bool
  | LogInfo string
  | Print string
  | PrintTable "string list" "cell list list"

text \<open>
  The method \<^verbatim>\<open>process(question, top_n, n_docs, return_context)\<close> of a pipeline object:
  it returns the predictions or raises, and it may change the world.
\<close>

type_synonym ('w, 'e) backend =
  "string \<Rightarrow> int \<Rightarrow> int \<Rightarrow> bool \<Rightarrow> 'w \<Rightarrow> ('e + prediction list) \<times> 'w"

record ('w, 'e) env =
  DrQATransformers :: "('w, 'e) backend"
  PyseriniTransformersQA :: "('w, 'e) backend"
  time_time :: "'w \<Rightarrow> real"
  colored :: "string \<Rightarrow> string"
  fmt_4f :: "real \<Rightarrow> string"
  fmt_5g :: "real \<Rightarrow> string"

text \<open>
  The state threaded through a query: the world outside the script (the pipeline's internals,
  the clock) and the trace of what the script has done so far, oldest first.
\<close>

record 'w state =
  world :: 'w
  trace :: "event list"

subsection \<open>Start-up: the backend and its default\<close>

text \<open>
  Lines 72 to 101: \<^verbatim>\<open>tfidf\<close> builds a \<^verbatim>\<open>DrQATransformers\<close> and sets the default to 5,
  \<^verbatim>\<open>serini-bm25\<close> builds a \<^verbatim>\<open>PyseriniTransformersQA\<close> and sets it to 30.
\<close>

definition pipeline :: "('w, 'e) env \<Rightarrow> retriever \<Rightarrow> ('w, 'e) backend" where
  "pipeline E r = (case r of Tfidf \<Rightarrow> DrQATransformers E | SeriniBm25 \<Rightarrow> PyseriniTransformersQA E)"

definition n_docs_default :: "retriever \<Rightarrow> int" where
  "n_docs_default r = (case r of Tfidf \<Rightarrow> 5 | SeriniBm25 \<Rightarrow> 30)"

subsection \<open>Python slicing\<close>

text \<open>
  How a slice bound is read against a sequence of length \<open>n\<close>: a negative bound counts from
  the end, and the result is clamped to \<open>0..n\<close>.
\<close>

definition adjust_index :: "int \<Rightarrow> nat \<Rightarrow> nat" where
  "adjust_index i n =
     (if i < 0 then (if i + int n < 0 then 0 else nat (i + int n))
      else if int n < i then n else nat i)"

text \<open>\<^verbatim>\<open>xs[:hi]\<close>, \<^verbatim>\<open>xs[lo:hi]\<close> and \<^verbatim>\<open>xs[lo:]\<close>.\<close>

definition slice_to :: "'a list \<Rightarrow> int \<Rightarrow> 'a list" where
  "slice_to xs hi = take (adjust_index hi (length xs)) xs"

definition slice :: "'a list \<Rightarrow> int \<Rightarrow> int \<Rightarrow> 'a list" where
  "slice xs lo hi =
     (let l = adjust_index lo (length xs); h = adjust_index hi (length xs)
      in if h \<le> l then [] else take (h - l) (drop l xs))"

definition slice_from :: "'a list \<Rightarrow> int \<Rightarrow> 'a list" where
  "slice_from xs lo = drop (adjust_index lo (length xs)) xs"

subsection \<open>The query command\<close>

definition newline :: char where
  "newline = CHR 0x0A"

text \<open>The field names of the summary table (lines 116 to 118).\<close>

definition field_names :: "string list" where
  "field_names = [''Rank'', ''Answer'', ''Doc'', ''Answer Score'', ''Doc Score'']"

text \<open>
  Lines 119 and 120: \<^verbatim>\<open>for i, p in enumerate(predictions, 1): table.add_row([...])\<close>.
  The counter starts at the second argument and each row is appended to the table.
\<close>

fun add_rows :: "(real \<Rightarrow> string) \<Rightarrow> int \<Rightarrow> prediction list \<Rightarrow> cell list list \<Rightarrow> cell list list" where
  "add_rows g i [] rows = rows"
| "add_rows g i (p # ps) rows =
     add_rows g (i + 1) ps
       (rows @ [[IntCell i, StrCell (span_p p), StrCell (doc_id p),
                 StrCell (g (span_score p)), StrCell (g (doc_score p))]])"

text \<open>Lines 130 to 134: the string bound to \<^verbatim>\<open>output\<close>.\<close>

definition output_str :: "(string \<Rightarrow> string) \<Rightarrow> context_c \<Rightarrow> string" where
  "output_str col c =
     slice_to (text_c c) (start_c c)
     @ col (slice (text_c c) (start_c c) (end_c c))
     @ slice_from (text_c c) (end_c c)"

text \<open>
  Lines 125 to 136: the loop over the predictions. \<^verbatim>\<open>p['context']\<close> raises
  \<^verbatim>\<open>KeyError\<close> when the key is missing, which ends the loop and the command; otherwise
  two strings are printed, the document line and \<^verbatim>\<open>output + '\n'\<close>.
\<close>

fun contexts_loop ::
  "(string \<Rightarrow> string) \<Rightarrow> prediction list \<Rightarrow> event list \<Rightarrow> ('e failure + unit) \<times> event list" where
  "contexts_loop col [] tr = (Inr (), tr)"
| "contexts_loop col (p # ps) tr =
     (case context_p p of
        None \<Rightarrow> (Inl (KeyError ''context''), tr)
      | Some c \<Rightarrow>
          contexts_loop col ps
            (tr @ [Print (''[ Doc = '' @ doc_id p @ '' ]''),
                   Print (output_str col c @ [newline])]))"

text \<open>
  A keyword argument with a default in the signature: the caller's value when one is passed,
  the default when the argument is omitted (\<open>None\<close>).
\<close>

definition arg_or :: "'a \<Rightarrow> 'a option \<Rightarrow> 'a" where
  "arg_or d a = (case a of None \<Rightarrow> d | Some v \<Rightarrow> v)"

text \<open>
  Lines 109 to 136. An omitted argument is \<open>None\<close> and takes the default of the signature:
  3 for \<^verbatim>\<open>top_n\<close> and \<^verbatim>\<open>n_docs_default\<close> for \<^verbatim>\<open>n_docs\<close>. The clock is read, the
  pipeline is called; if it raises, the exception leaves the command there. Otherwise the
  clock is read again and the duration logged, the table is built and printed, and the
  contexts are printed.
\<close>

definition process ::
  "('w, 'e) env \<Rightarrow> retriever \<Rightarrow> string \<Rightarrow> int option \<Rightarrow> int option \<Rightarrow> 'w state
     \<Rightarrow> ('e failure + unit) \<times> 'w state" where
  "process E r question top_n_arg n_docs_arg s =
     (let top_n = arg_or 3 top_n_arg;
          n_docs = arg_or (n_docs_default r) n_docs_arg;
          t0 = time_time E (world s);
          (res, w1) = pipeline E r question top_n n_docs True (world s);
          tr1 = trace s @ [Called question top_n n_docs True]
      in case res of
           Inl e \<Rightarrow> (Inl (Raised e), \<lparr>world = w1, trace = tr1\<rparr>)
         | Inr predictions \<Rightarrow>
             (let tr2 = tr1 @ [LogInfo (''Processed 1 query in ''
                                 @ fmt_4f E (time_time E w1 - t0) @ '' (s)'')];
                  rows = add_rows (fmt_5g E) 1 predictions [];
                  tr3 = tr2 @ [Print ''Top Predictions:'',
                               PrintTable field_names rows,
                               Print (newline # ''Contexts:'')];
                  (res', tr4) = contexts_loop (colored E) predictions tr3
              in (res', \<lparr>world = w1, trace = tr4\<rparr>)))"

subsection \<open>The help command and the console\<close>

text \<open>Lines 139 to 143: the banner, a literal of five lines.\<close>

definition banner :: string where
  "banner =
     newline # ''    Interactive DrQA''
     @ newline # ''    >> process(question, top_n=1, n_docs=5)''
     @ newline # ''    >> usage()''
     @ newline # ''    ''"

text \<open>Lines 145 and 146.\<close>

definition usage :: "'w state \<Rightarrow> 'w state" where
  "usage s = s\<lparr>trace := trace s @ [Print banner]\<rparr>"

text \<open>
  How a name of the script's top level got its value: \<^verbatim>\<open>import m\<close>,
  \<^verbatim>\<open>from m import n\<close>, an assignment, or a \<^verbatim>\<open>def\<close>.
\<close>

datatype binding = Import | FromImport | Assign | Def

text \<open>
  Line 149: \<^verbatim>\<open>code.interact(banner=banner, local=locals())\<close>. The call stands at the top
  level of the script (an \<^verbatim>\<open>if\<close> opens no scope), so \<^verbatim>\<open>locals()\<close> is the namespace of
  the module: every name the script has bound by then, here in the order of binding
  (lines 9 to 22, then 27 to 101, then 109 to 145).
\<close>

definition shell_locals :: "(string \<times> binding) list" where
  "shell_locals =
     [(''os'', Import), (''torch'', Import), (''argparse'', Import), (''code'', Import),
      (''prettytable'', Import), (''logging'', Import), (''time'', Import),
      (''colored'', FromImport), (''DrQATransformers'', FromImport),
      (''PyseriniTransformersQA'', FromImport),
      (''logger'', Assign), (''fmt'', Assign), (''console'', Assign), (''parser'', Assign),
      (''args'', Assign), (''pipeline'', Assign), (''n_docs_default'', Assign),
      (''process'', Def), (''banner'', Assign), (''usage'', Def)]"

text \<open>
  The names of the namespace that can be called as they stand: the functions the script
  defines, and the three names it imports with \<^verbatim>\<open>from\<close>, each of which the script itself
  calls (lines 73, 91 and 132).
\<close>

definition callable :: "binding \<Rightarrow> bool" where
  "callable b = (case b of Def \<Rightarrow> True | FromImport \<Rightarrow> True | Import \<Rightarrow> False | Assign \<Rightarrow> False)"

definition exposed_callables :: "string list" where
  "exposed_callables = map fst (filter (\<lambda>nb. callable (snd nb)) shell_locals)"

definition defined_commands :: "string list" where
  "defined_commands = map fst (filter (\<lambda>nb. snd nb = Def) shell_locals)"

subsection \<open>Reading a trace\<close>

text \<open>The pipeline calls, the log lines, the printed tables and the printed strings of a trace.\<close>

definition calls_of :: "event list \<Rightarrow> (string \<times> int \<times> int \<times> bool) list" where
  "calls_of es =
     concat (map (\<lambda>e. case e of Called q t n rc \<Rightarrow> [(q, t, n, rc)] | LogInfo m \<Rightarrow> []
                              | Print x \<Rightarrow> [] | PrintTable h rs \<Rightarrow> []) es)"

definition logs_of :: "event list \<Rightarrow> string list" where
  "logs_of es =
     concat (map (\<lambda>e. case e of Called q t n rc \<Rightarrow> [] | LogInfo m \<Rightarrow> [m]
                              | Print x \<Rightarrow> [] | PrintTable h rs \<Rightarrow> []) es)"

definition tables_of :: "event list \<Rightarrow> (string list \<times> cell list list) list" where
  "tables_of es =
     concat (map (\<lambda>e. case e of Called q t n rc \<Rightarrow> [] | LogInfo m \<Rightarrow> []
                              | Print x \<Rightarrow> [] | PrintTable h rs \<Rightarrow> [(h, rs)]) es)"

subsection \<open>A small pipeline to run the script on\<close>

text \<open>
  Two predictions about one question. The pipeline below raises on a blank question,
  returns at most \<open>top_n\<close> predictions otherwise, leaves the contexts out unless they are asked
  for, and takes one tick of the clock.
\<close>

definition paris :: prediction where
  "paris = \<lparr>span_p = ''Paris'', doc_id = ''France'', span_score = 0.98, doc_score = 12.3,
            context_p = Some \<lparr>text_c = ''The capital is Paris.'', start_c = 15, end_c = 20\<rparr>\<rparr>"

definition lyon :: prediction where
  "lyon = \<lparr>span_p = ''Lyon'', doc_id = ''Rhone'', span_score = 0.31, doc_score = 7.5,
           context_p = Some \<lparr>text_c = ''Lyon was the capital of Gaul.'', start_c = 0, end_c = 4\<rparr>\<rparr>"

definition example_backend :: "(nat, string) backend" where
  "example_backend q top_n n_docs rc w =
     (if q = [] then Inl ''blank question''
      else Inr (map (\<lambda>p. if rc then p else p\<lparr>context_p := None\<rparr>)
                  (take (nat top_n) [paris, lyon])),
      Suc w)"

definition example_env :: "(nat, string) env" where
  "example_env =
     \<lparr>DrQATransformers = example_backend,
      PyseriniTransformersQA = (\<lambda>q top_n n_docs rc w. (Inr [], Suc w)),
      time_time = real,
      colored = (\<lambda>x. ''<b>'' @ x @ ''</b>''),
      fmt_4f = (\<lambda>x. ''1.0000''),
      fmt_5g = (\<lambda>x. if x < 1 then ''0.5'' else ''10'')\<rparr>"

definition start_state :: "nat state" where
  "start_state = \<lparr>world = 0, trace = []\<rparr>"

text \<open>
  A pipeline that does not keep to its contract: whatever is asked of it, the second of its
  three predictions comes without a context.
\<close>

definition careless_backend :: "(nat, string) backend" where
  "careless_backend q top_n n_docs rc w = (Inr [paris, lyon\<lparr>context_p := None\<rparr>, paris], Suc w)"

definition careless_env :: "(nat, string) env" where
  "careless_env = example_env\<lparr>DrQATransformers := careless_backend\<rparr>"

section \<open>Properties\<close>

subsection \<open>Auxiliary facts\<close>

lemma calls_of_append: "calls_of (xs @ ys) = calls_of xs @ calls_of ys"
  by (simp add: calls_of_def)

lemma logs_of_append: "logs_of (xs @ ys) = logs_of xs @ logs_of ys"
  by (simp add: logs_of_def)

lemma tables_of_append: "tables_of (xs @ ys) = tables_of xs @ tables_of ys"
  by (simp add: tables_of_def)

lemma calls_of_contexts_loop: "calls_of (snd (contexts_loop col ps tr)) = calls_of tr"
  by (induction ps arbitrary: tr) (auto simp: calls_of_def split: option.splits)

lemma logs_of_contexts_loop: "logs_of (snd (contexts_loop col ps tr)) = logs_of tr"
  by (induction ps arbitrary: tr) (auto simp: logs_of_def split: option.splits)

lemma tables_of_contexts_loop: "tables_of (snd (contexts_loop col ps tr)) = tables_of tr"
  by (induction ps arbitrary: tr) (auto simp: tables_of_def split: option.splits)

lemma process_raise:
  assumes "pipeline E r q (arg_or 3 tn) (arg_or (n_docs_default r) nd) True (world s) = (Inl e, w1)"
  shows "process E r q tn nd s =
           (Inl (Raised e),
            \<lparr>world = w1, trace = trace s @ [Called q (arg_or 3 tn) (arg_or (n_docs_default r) nd) True]\<rparr>)"
  using assms by (simp add: process_def)

lemma process_return_trace:
  assumes "pipeline (E :: ('w, 'e) env) r q (arg_or 3 tn) (arg_or (n_docs_default r) nd) True (world s) = (Inr ps, w1)"
  shows "trace (snd (process E r q tn nd s)) =
           snd (contexts_loop (colored E) ps
             (trace s @ [Called q (arg_or 3 tn) (arg_or (n_docs_default r) nd) True,
                LogInfo (''Processed 1 query in ''
                   @ fmt_4f E (time_time E w1 - time_time E (world s)) @ '' (s)''),
                Print ''Top Predictions:'',
                PrintTable field_names (add_rows (fmt_5g E) 1 ps []),
                Print (newline # ''Contexts:'')]) :: ('e failure + unit) \<times> event list)"
  using assms by (simp add: process_def Let_def case_prod_beta)

lemma process_return_result:
  assumes "pipeline E r q (arg_or 3 tn) (arg_or (n_docs_default r) nd) True (world s) = (Inr ps, w1)"
  shows "fst (process E r q tn nd s) =
           fst (contexts_loop (colored E) ps
             (trace s @ [Called q (arg_or 3 tn) (arg_or (n_docs_default r) nd) True,
                LogInfo (''Processed 1 query in ''
                   @ fmt_4f E (time_time E w1 - time_time E (world s)) @ '' (s)''),
                Print ''Top Predictions:'',
                PrintTable field_names (add_rows (fmt_5g E) 1 ps []),
                Print (newline # ''Contexts:'')]))"
  using assms by (simp add: process_def Let_def case_prod_beta)

lemma process_calls:
  "calls_of (trace (snd (process E r q tn nd s))) =
     calls_of (trace s) @ [(q, arg_or 3 tn, arg_or (n_docs_default r) nd, True)]"
proof (cases "pipeline E r q (arg_or 3 tn) (arg_or (n_docs_default r) nd) True (world s)")
  case (Pair res w1)
  show ?thesis
  proof (cases res)
    case (Inl e)
    with Pair show ?thesis
      by (simp add: process_raise calls_of_def)
  next
    case (Inr ps)
    with Pair show ?thesis
      by (simp add: process_return_trace calls_of_contexts_loop) (simp add: calls_of_def)
  qed
qed

lemma add_rows_eq:
  "add_rows g i ps rows =
     rows @ map (\<lambda>(k, p). [IntCell k, StrCell (span_p p), StrCell (doc_id p),
                          StrCell (g (span_score p)), StrCell (g (doc_score p))])
              (zip [i..i + int (length ps) - 1] ps)"
proof (induction ps arbitrary: i rows)
  case Nil
  then show ?case by simp
next
  case (Cons p ps)
  have "[i..i + int (length (p # ps)) - 1] = i # [i + 1..i + 1 + int (length ps) - 1]"
    by (subst upto_rec1) (simp_all add: add.commute add.left_commute)
  then show ?case
    by (simp add: Cons.IH)
qed

lemma add_rows_length: "length (add_rows g i ps rows) = length rows + length ps"
  by (induction ps arbitrary: i rows) simp_all

lemma add_rows_ranks:
  "map hd (add_rows g i ps rows) = map hd rows @ map IntCell [i..i + int (length ps) - 1]"
proof (induction ps arbitrary: i rows)
  case Nil
  then show ?case by simp
next
  case (Cons p ps)
  have "[i..i + int (length (p # ps)) - 1] = i # [i + 1..i + 1 + int (length ps) - 1]"
    by (subst upto_rec1) (simp_all add: add.commute add.left_commute)
  then show ?case
    by (simp add: Cons.IH)
qed

lemma adjust_index_valid: "0 \<le> i \<Longrightarrow> i \<le> int n \<Longrightarrow> adjust_index i n = nat i"
  by (simp add: adjust_index_def)

lemma slices_valid:
  assumes "0 \<le> lo" and "lo \<le> hi" and "hi \<le> int (length xs)"
  shows "slice_to xs lo = take (nat lo) xs"
    and "slice xs lo hi = take (nat hi - nat lo) (drop (nat lo) xs)"
    and "slice_from xs hi = drop (nat hi) xs"
  using assms by (simp_all add: slice_to_def slice_def slice_from_def adjust_index_valid Let_def)

lemma take_mid_drop:
  assumes "a \<le> b"
  shows "take a xs @ take (b - a) (drop a xs) @ drop b xs = xs"
proof -
  have "take (b - a) (drop a xs) @ drop b xs = drop a xs"
    using assms by (metis append_take_drop_id drop_drop le_add_diff_inverse2 add.commute)
  then show ?thesis by simp
qed

lemma contexts_loop_all_present:
  "list_all (\<lambda>x. context_p x \<noteq> None) ps \<Longrightarrow> fst (contexts_loop col ps tr) = Inr ()"
  by (induction ps arbitrary: tr) (auto split: option.splits)

lemma contexts_loop_append:
  "fst (contexts_loop col ps1 tr :: ('e failure + unit) \<times> event list) = Inr () \<Longrightarrow>
   (contexts_loop col (ps1 @ ps2) tr :: ('e failure + unit) \<times> event list) =
     contexts_loop col ps2 (snd (contexts_loop col ps1 tr :: ('e failure + unit) \<times> event list))"
  by (induction ps1 arbitrary: tr) (auto split: option.splits)


lemma contexts_loop_views:
  "list_all (\<lambda>x. context_p x \<noteq> None) ps \<Longrightarrow>
   contexts_loop col ps tr =
     (Inr (),
      tr @ concat (map (\<lambda>x. case context_p x of None \<Rightarrow> []
                         | Some c \<Rightarrow> [Print (''[ Doc = '' @ doc_id x @ '' ]''),
                                     Print (output_str col c @ [newline])]) ps))"
  by (induction ps arbitrary: tr) auto

lemma process_world:
  "world (snd (process E r q tn nd s)) =
     snd (pipeline E r q (arg_or 3 tn) (arg_or (n_docs_default r) nd) True (world s))"
  by (simp add: process_def Let_def case_prod_beta split: sum.splits)

lemma process_ignores_answers_without_context:
  "process (E\<lparr>DrQATransformers :=
                 (\<lambda>q' t n rc w. if rc then DrQATransformers E q' t n rc w else f q' t n w),
               PyseriniTransformersQA :=
                 (\<lambda>q' t n rc w. if rc then PyseriniTransformersQA E q' t n rc w else g q' t n w)\<rparr>)
      r q tn nd s = process E r q tn nd s"
  by (cases r) (simp_all add: process_def pipeline_def Let_def case_prod_beta split: sum.splits)

subsection \<open>Defaults of the query command\<close>

text \<open>
  C1. Omitting \<^verbatim>\<open>top_n\<close> is the same as passing 3, and omitting \<^verbatim>\<open>n_docs\<close> is the same
  as passing the default of the backend chosen at start-up: 5 under \<^verbatim>\<open>tfidf\<close>, 30 under
  \<^verbatim>\<open>serini-bm25\<close>. The whole outcome of the command (result, world and trace) is the same.
\<close>

theorem process_omitted_arguments:
  "process E r q None nd s = process E r q (Some 3) nd s
   \<and> process E r q tn None s = process E r q tn (Some (n_docs_default r)) s
   \<and> process E Tfidf q tn None s = process E Tfidf q tn (Some 5) s
   \<and> process E SeriniBm25 q tn None s = process E SeriniBm25 q tn (Some 30) s"
  by (simp add: process_def arg_or_def n_docs_default_def)

text \<open>
  C8 (as amended). The default fixed at start-up is 5 for the \<^verbatim>\<open>tfidf\<close> backend, the
  \<^verbatim>\<open>DrQATransformers\<close> pipeline, and 30 for the \<^verbatim>\<open>serini-bm25\<close> backend, the
  \<^verbatim>\<open>PyseriniTransformersQA\<close> pipeline over an inverted index.
\<close>

theorem n_docs_default_per_backend:
  "n_docs_default Tfidf = 5 \<and> pipeline E Tfidf = DrQATransformers E
   \<and> n_docs_default SeriniBm25 = 30 \<and> pipeline E SeriniBm25 = PyseriniTransformersQA E"
  by (simp add: n_docs_default_def pipeline_def)

text \<open>
  C8 as stated gives 5 to the inverted-index backend and 30 to the other one; the script has
  them the other way round.
\<close>

theorem n_docs_default_swapped_counterexample:
  "\<not> (n_docs_default SeriniBm25 = 5 \<and> n_docs_default Tfidf = 30)"
  by (simp add: n_docs_default_def)

subsection \<open>The call of the pipeline\<close>

text \<open>
  C7. Whatever the question and the two budgets, the command calls the pipeline once, with
  \<^verbatim>\<open>return_context\<close> true. The calls in the trace grow by exactly that one call; the
  world the command leaves is the world that call of the pipeline leaves; an exception of
  that call is the exception of the command, and predictions returned by that call are the
  ones that are tabulated and rendered; and what the pipeline would answer when asked for no
  contexts has no bearing on the command.
\<close>

theorem pipeline_called_with_return_context:
  "calls_of (trace (snd (process E r q tn nd s))) =
     calls_of (trace s) @ [(q, arg_or 3 tn, arg_or (n_docs_default r) nd, True)]
   \<and> world (snd (process E r q tn nd s)) =
       snd (pipeline E r q (arg_or 3 tn) (arg_or (n_docs_default r) nd) True (world s))
   \<and> (pipeline E r q (arg_or 3 tn) (arg_or (n_docs_default r) nd) True (world s) = (Inl e, w1) \<longrightarrow>
        fst (process E r q tn nd s) = Inl (Raised e))
   \<and> (pipeline E r q (arg_or 3 tn) (arg_or (n_docs_default r) nd) True (world s) = (Inr ps, w1) \<longrightarrow>
        process E r q tn nd s =
          (case contexts_loop (colored E) ps
                  (trace s @ [Called q (arg_or 3 tn) (arg_or (n_docs_default r) nd) True,
                  LogInfo (''Processed 1 query in ''
                     @ fmt_4f E (time_time E w1 - time_time E (world s)) @ '' (s)''),
                  Print ''Top Predictions:'',
                  PrintTable field_names (add_rows (fmt_5g E) 1 ps []),
                  Print (newline # ''Contexts:'')]) of
             (res, tr4) \<Rightarrow> (res, \<lparr>world = w1, trace = tr4\<rparr>)))
   \<and> process (E\<lparr>DrQATransformers :=
                   (\<lambda>q' t n rc w. if rc then DrQATransformers E q' t n rc w else f q' t n w),
                 PyseriniTransformersQA :=
                   (\<lambda>q' t n rc w. if rc then PyseriniTransformersQA E q' t n rc w else g q' t n w)\<rparr>)
        r q tn nd s = process E r q tn nd s"
proof (intro conjI impI)
  show "calls_of (trace (snd (process E r q tn nd s))) =
     calls_of (trace s) @ [(q, arg_or 3 tn, arg_or (n_docs_default r) nd, True)]"
    by (rule process_calls)
next
  show "world (snd (process E r q tn nd s)) =
       snd (pipeline E r q (arg_or 3 tn) (arg_or (n_docs_default r) nd) True (world s))"
    by (rule process_world)
next
  assume "pipeline E r q (arg_or 3 tn) (arg_or (n_docs_default r) nd) True (world s) = (Inl e, w1)"
  then show "fst (process E r q tn nd s) = Inl (Raised e)"
    by (simp add: process_raise)
next
  assume "pipeline E r q (arg_or 3 tn) (arg_or (n_docs_default r) nd) True (world s) = (Inr ps, w1)"
  then show "process E r q tn nd s =
          (case contexts_loop (colored E) ps
                  (trace s @ [Called q (arg_or 3 tn) (arg_or (n_docs_default r) nd) True,
                  LogInfo (''Processed 1 query in ''
                     @ fmt_4f E (time_time E w1 - time_time E (world s)) @ '' (s)''),
                  Print ''Top Predictions:'',
                  PrintTable field_names (add_rows (fmt_5g E) 1 ps []),
                  Print (newline # ''Contexts:'')]) of
             (res, tr4) \<Rightarrow> (res, \<lparr>world = w1, trace = tr4\<rparr>))"
    by (simp add: process_def Let_def)
next
  show "process (E\<lparr>DrQATransformers :=
                   (\<lambda>q' t n rc w. if rc then DrQATransformers E q' t n rc w else f q' t n w),
                 PyseriniTransformersQA :=
                   (\<lambda>q' t n rc w. if rc then PyseriniTransformersQA E q' t n rc w else g q' t n w)\<rparr>)
        r q tn nd s = process E r q tn nd s"
    by (rule process_ignores_answers_without_context)
qed

text \<open>
  On the example pipeline, which leaves the contexts out unless they are asked for, the
  command renders both contexts.
\<close>

theorem pipeline_called_with_return_context_witness:
  "pipeline example_env Tfidf ''Capital of France?'' (arg_or 3 None)
     (arg_or (n_docs_default Tfidf) None) True (world start_state) = (Inr [paris, lyon], 1)
   \<and> pipeline example_env Tfidf ''Capital of France?'' (arg_or 3 None)
       (arg_or (n_docs_default Tfidf) None) False (world start_state) =
       (Inr [paris\<lparr>context_p := None\<rparr>, lyon\<lparr>context_p := None\<rparr>], 1)
   \<and> process example_env Tfidf ''Capital of France?'' None None start_state =
       (Inr (),
        \<lparr>world = 1,
         trace = [Called ''Capital of France?'' 3 5 True,
                  LogInfo ''Processed 1 query in 1.0000 (s)'',
                  Print ''Top Predictions:'',
                  PrintTable field_names
                    [[IntCell 1, StrCell ''Paris'', StrCell ''France'', StrCell ''0.5'', StrCell ''10''],
                     [IntCell 2, StrCell ''Lyon'', StrCell ''Rhone'', StrCell ''0.5'', StrCell ''10'']],
                  Print (newline # ''Contexts:''),
                  Print ''[ Doc = France ]'',
                  Print (''The capital is <b>Paris</b>.'' @ [newline]),
                  Print ''[ Doc = Rhone ]'',
                  Print (''<b>Lyon</b> was the capital of Gaul.'' @ [newline])]\<rparr>)"
proof -
  have t: "pipeline example_env Tfidf ''Capital of France?'' (arg_or 3 None)
     (arg_or (n_docs_default Tfidf) None) True (world start_state) = (Inr [paris, lyon], 1)"
    by (simp add: pipeline_def example_env_def example_backend_def start_state_def arg_or_def)
  have f: "pipeline example_env Tfidf ''Capital of France?'' (arg_or 3 None)
       (arg_or (n_docs_default Tfidf) None) False (world start_state) =
       (Inr [paris\<lparr>context_p := None\<rparr>, lyon\<lparr>context_p := None\<rparr>], 1)"
    by (simp add: pipeline_def example_env_def example_backend_def start_state_def arg_or_def)
  have rows: "add_rows (fmt_5g example_env) 1 [paris, lyon] [] =
           [[IntCell 1, StrCell ''Paris'', StrCell ''France'', StrCell ''0.5'', StrCell ''10''],
            [IntCell 2, StrCell ''Lyon'', StrCell ''Rhone'', StrCell ''0.5'', StrCell ''10'']]"
    by (simp add: example_env_def paris_def lyon_def)
  have views: "contexts_loop (colored example_env) [paris, lyon] tr =
      (Inr (), tr @ [Print ''[ Doc = France ]'',
                 Print (''The capital is <b>Paris</b>.'' @ [newline]),
                 Print ''[ Doc = Rhone ]'',
                 Print (''<b>Lyon</b> was the capital of Gaul.'' @ [newline])])" for tr
    by (simp add: paris_def lyon_def example_env_def output_str_def slice_to_def slice_def
        slice_from_def adjust_index_def)
  note step = pipeline_called_with_return_context
         [where E = example_env and r = Tfidf and q = "''Capital of France?''" and tn = None
            and nd = None and s = start_state and ps = "[paris, lyon]" and ?w1.0 = 1,
          THEN conjunct2, THEN conjunct2, THEN conjunct2, THEN conjunct1, THEN mp, OF t]
  have "process example_env Tfidf ''Capital of France?'' None None start_state =
       (Inr (),
        \<lparr>world = 1,
         trace = [Called ''Capital of France?'' 3 5 True,
                  LogInfo ''Processed 1 query in 1.0000 (s)'',
                  Print ''Top Predictions:'',
                  PrintTable field_names
                    [[IntCell 1, StrCell ''Paris'', StrCell ''France'', StrCell ''0.5'', StrCell ''10''],
                     [IntCell 2, StrCell ''Lyon'', StrCell ''Rhone'', StrCell ''0.5'', StrCell ''10'']],
                  Print (newline # ''Contexts:''),
                  Print ''[ Doc = France ]'',
                  Print (''The capital is <b>Paris</b>.'' @ [newline]),
                  Print ''[ Doc = Rhone ]'',
                  Print (''<b>Lyon</b> was the capital of Gaul.'' @ [newline])]\<rparr>)"
    unfolding step views rows
    by (simp add: start_state_def arg_or_def n_docs_default_def example_env_def)
  with t f show ?thesis by simp
qed

text \<open>
  C6. When the pipeline raises, the command ends with that very exception: the world is the
  one the single call left, the trace has grown by that call alone, and nothing is logged
  or printed.
\<close>

theorem pipeline_failure_propagates:
  assumes "pipeline E r q (arg_or 3 tn) (arg_or (n_docs_default r) nd) True (world s) = (Inl e, w1)"
  shows "process E r q tn nd s =
           (Inl (Raised e),
            \<lparr>world = w1,
             trace = trace s @ [Called q (arg_or 3 tn) (arg_or (n_docs_default r) nd) True]\<rparr>)
         \<and> length (calls_of (trace (snd (process E r q tn nd s)))) = length (calls_of (trace s)) + 1"
  using assms process_calls [of E r q tn nd s] by (simp add: process_raise)

theorem pipeline_failure_propagates_witness:
  "pipeline example_env Tfidf [] (arg_or 3 None) (arg_or (n_docs_default Tfidf) None) True
     (world start_state) = (Inl ''blank question'', 1)
   \<and> process example_env Tfidf [] None None start_state =
       (Inl (Raised ''blank question''), \<lparr>world = 1, trace = [Called [] 3 5 True]\<rparr>)"
proof -
  have h: "pipeline example_env Tfidf [] (arg_or 3 None) (arg_or (n_docs_default Tfidf) None) True
     (world start_state) = (Inl ''blank question'', 1)"
    by (simp add: pipeline_def example_env_def example_backend_def start_state_def)
  from pipeline_failure_propagates [OF h] h show ?thesis
    by (simp add: arg_or_def n_docs_default_def start_state_def)
qed

text \<open>
  C4 (as amended). The duration of the pipeline call is logged when the call returns: one
  line, made of the difference of the two clock readings. When the call raises, the command
  logs nothing.
\<close>

theorem latency_logged_on_return:
  "(pipeline E r q (arg_or 3 tn) (arg_or (n_docs_default r) nd) True (world s) = (Inr ps, w1) \<longrightarrow>
      logs_of (trace (snd (process E r q tn nd s))) =
        logs_of (trace s)
        @ [''Processed 1 query in '' @ fmt_4f E (time_time E w1 - time_time E (world s)) @ '' (s)''])
   \<and> (pipeline E r q (arg_or 3 tn) (arg_or (n_docs_default r) nd) True (world s) = (Inl e, w1) \<longrightarrow>
      logs_of (trace (snd (process E r q tn nd s))) = logs_of (trace s))"
proof (intro conjI impI)
  assume "pipeline E r q (arg_or 3 tn) (arg_or (n_docs_default r) nd) True (world s) = (Inr ps, w1)"
  then show "logs_of (trace (snd (process E r q tn nd s))) =
        logs_of (trace s)
        @ [''Processed 1 query in '' @ fmt_4f E (time_time E w1 - time_time E (world s)) @ '' (s)'']"
    by (simp add: process_return_trace logs_of_contexts_loop) (simp add: logs_of_def)
next
  assume "pipeline E r q (arg_or 3 tn) (arg_or (n_docs_default r) nd) True (world s) = (Inl e, w1)"
  then show "logs_of (trace (snd (process E r q tn nd s))) = logs_of (trace s)"
    by (simp add: process_raise logs_of_def)
qed

theorem latency_logged_on_return_witness:
  "logs_of (trace (snd (process example_env Tfidf ''Capital of France?'' None None start_state)))
     = [''Processed 1 query in 1.0000 (s)'']
   \<and> logs_of (trace (snd (process example_env Tfidf [] None None start_state))) = []"
proof -
  have a: "pipeline example_env Tfidf ''Capital of France?'' (arg_or 3 None)
             (arg_or (n_docs_default Tfidf) None) True (world start_state) = (Inr [paris, lyon], 1)"
    by (simp add: pipeline_def example_env_def example_backend_def start_state_def arg_or_def)
  have b: "pipeline example_env Tfidf [] (arg_or 3 None) (arg_or (n_docs_default Tfidf) None) True
     (world start_state) = (Inl ''blank question'', 1)"
    by (simp add: pipeline_def example_env_def example_backend_def start_state_def)
  from latency_logged_on_return [of example_env Tfidf "''Capital of France?''" None None
      start_state "[paris, lyon]" 1 "''blank question''"] a
  have "logs_of (trace (snd (process example_env Tfidf ''Capital of France?'' None None start_state)))
     = [''Processed 1 query in 1.0000 (s)'']"
    by (simp add: start_state_def logs_of_def example_env_def)
  moreover
  from latency_logged_on_return [of example_env Tfidf "[]" None None
      start_state "[]" 1 "''blank question''"] b
  have "logs_of (trace (snd (process example_env Tfidf [] None None start_state))) = []"
    by (simp add: start_state_def logs_of_def)
  ultimately show ?thesis by simp
qed

text \<open>
  C4 as stated has the duration reported also when the pipeline raises. On a blank question
  the example pipeline raises, the command ends with that exception, and the log is empty.
\<close>

theorem latency_on_failure_counterexample:
  "fst (process example_env Tfidf [] None None start_state) = Inl (Raised ''blank question'')
   \<and> logs_of (trace (snd (process example_env Tfidf [] None None start_state))) = []"
  by (simp add: process_def pipeline_def example_env_def example_backend_def start_state_def
      arg_or_def n_docs_default_def logs_of_def)

subsection \<open>The summary table\<close>

text \<open>
  C3. When the pipeline returns \<open>N\<close> predictions, the command prints one table whose rows
  are the predictions in their order, one row each, and whose first column is \<open>1..N\<close>: the
  rank is the counter of the enumeration, so the column is fixed by \<open>N\<close> alone and by nothing
  the pipeline put into the predictions.
\<close>

theorem summary_table_ranks:
  assumes "pipeline E r q (arg_or 3 tn) (arg_or (n_docs_default r) nd) True (world s) = (Inr ps, w1)"
  shows "tables_of (trace (snd (process E r q tn nd s))) =
           tables_of (trace s) @ [(field_names, add_rows (fmt_5g E) 1 ps [])]
         \<and> add_rows (fmt_5g E) 1 ps [] =
             map (\<lambda>(k, p). [IntCell k, StrCell (span_p p), StrCell (doc_id p),
                              StrCell (fmt_5g E (span_score p)), StrCell (fmt_5g E (doc_score p))])
               (zip [1..int (length ps)] ps)
         \<and> length (add_rows (fmt_5g E) 1 ps []) = length ps
         \<and> map hd (add_rows (fmt_5g E) 1 ps []) = map IntCell [1..int (length ps)]"
proof -
  have "tables_of (trace (snd (process E r q tn nd s))) =
           tables_of (trace s) @ [(field_names, add_rows (fmt_5g E) 1 ps [])]"
    using assms by (simp add: process_return_trace tables_of_contexts_loop) (simp add: tables_of_def)
  moreover have "add_rows (fmt_5g E) 1 ps [] =
             map (\<lambda>(k, p). [IntCell k, StrCell (span_p p), StrCell (doc_id p),
                              StrCell (fmt_5g E (span_score p)), StrCell (fmt_5g E (doc_score p))])
               (zip [1..int (length ps)] ps)"
    by (simp add: add_rows_eq)
  moreover have "length (add_rows (fmt_5g E) 1 ps []) = length ps"
    by (simp add: add_rows_length)
  moreover have "map hd (add_rows (fmt_5g E) 1 ps []) = map IntCell [1..int (length ps)]"
    by (simp add: add_rows_ranks)
  ultimately show ?thesis by simp
qed

theorem summary_table_ranks_witness:
  "pipeline example_env Tfidf ''Capital of France?'' (arg_or 3 None)
     (arg_or (n_docs_default Tfidf) None) True (world start_state) = (Inr [paris, lyon], 1)
   \<and> tables_of (trace (snd (process example_env Tfidf ''Capital of France?'' None None start_state)))
       = [(field_names,
           [[IntCell 1, StrCell ''Paris'', StrCell ''France'', StrCell ''0.5'', StrCell ''10''],
            [IntCell 2, StrCell ''Lyon'', StrCell ''Rhone'', StrCell ''0.5'', StrCell ''10'']])]"
proof -
  have h: "pipeline example_env Tfidf ''Capital of France?'' (arg_or 3 None)
             (arg_or (n_docs_default Tfidf) None) True (world start_state) = (Inr [paris, lyon], 1)"
    by (simp add: pipeline_def example_env_def example_backend_def start_state_def arg_or_def)
  have "add_rows (fmt_5g example_env) 1 [paris, lyon] [] =
           [[IntCell 1, StrCell ''Paris'', StrCell ''France'', StrCell ''0.5'', StrCell ''10''],
            [IntCell 2, StrCell ''Lyon'', StrCell ''Rhone'', StrCell ''0.5'', StrCell ''10'']]"
    by (simp add: example_env_def paris_def lyon_def)
  with summary_table_ranks [OF h] h show ?thesis
    by (simp add: start_state_def tables_of_def)
qed

text \<open>
  C10. When the pipeline returns no prediction, the command ends normally. It has logged the
  duration and printed the heading, the table with its field names and no row, and the
  heading of the contexts, and nothing after that.
\<close>

theorem empty_result_completes:
  assumes "pipeline E r q (arg_or 3 tn) (arg_or (n_docs_default r) nd) True (world s) = (Inr [], w1)"
  shows "process E r q tn nd s =
           (Inr (),
            \<lparr>world = w1,
             trace = trace s @ [Called q (arg_or 3 tn) (arg_or (n_docs_default r) nd) True,
                LogInfo (''Processed 1 query in ''
                   @ fmt_4f E (time_time E w1 - time_time E (world s)) @ '' (s)''),
                Print ''Top Predictions:'',
                PrintTable field_names [],
                Print (newline # ''Contexts:'')]\<rparr>)"
  using assms by (simp add: process_def Let_def)

theorem empty_result_completes_witness:
  "pipeline example_env SeriniBm25 ''Capital of Mars?'' (arg_or 3 None)
     (arg_or (n_docs_default SeriniBm25) None) True (world start_state) = (Inr [], 1)
   \<and> process example_env SeriniBm25 ''Capital of Mars?'' None None start_state =
       (Inr (),
        \<lparr>world = 1,
         trace = [Called ''Capital of Mars?'' 3 30 True,
                  LogInfo ''Processed 1 query in 1.0000 (s)'',
                  Print ''Top Predictions:'',
                  PrintTable field_names [],
                  Print (newline # ''Contexts:'')]\<rparr>)"
proof -
  have h: "pipeline example_env SeriniBm25 ''Capital of Mars?'' (arg_or 3 None)
     (arg_or (n_docs_default SeriniBm25) None) True (world start_state) = (Inr [], 1)"
    by (simp add: pipeline_def example_env_def start_state_def)
  from empty_result_completes [OF h] h show ?thesis
    by (simp add: arg_or_def n_docs_default_def start_state_def example_env_def)
qed

subsection \<open>The context views\<close>

text \<open>
  C2. For a prediction with a context, the loop prints the document line and then the
  string made of three slices of the text taken at the offsets as given: the part before
  \<open>start\<close>, the part from \<open>start\<close> to \<open>end\<close> passed through \<^verbatim>\<open>colored\<close>, and the part from
  \<open>end\<close> on, followed by a newline. The text itself is only read. With
  \<open>0 \<le> start \<le> end \<le> len(text)\<close> the slices are the plain prefix, middle and suffix, they put
  the text together again, and with the styling taken away the view is the text.
\<close>

theorem context_view_slices:
  assumes "context_p p = Some c"
    and "0 \<le> start_c c" and "start_c c \<le> end_c c" and "end_c c \<le> int (length (text_c c))"
  shows "contexts_loop col (p # ps) tr =
           contexts_loop col ps
             (tr @ [Print (''[ Doc = '' @ doc_id p @ '' ]''),
                    Print (slice_to (text_c c) (start_c c)
                           @ col (slice (text_c c) (start_c c) (end_c c))
                           @ slice_from (text_c c) (end_c c) @ [newline])])
         \<and> slice_to (text_c c) (start_c c) = take (nat (start_c c)) (text_c c)
         \<and> slice (text_c c) (start_c c) (end_c c) =
             take (nat (end_c c) - nat (start_c c)) (drop (nat (start_c c)) (text_c c))
         \<and> slice_from (text_c c) (end_c c) = drop (nat (end_c c)) (text_c c)
         \<and> slice_to (text_c c) (start_c c) @ slice (text_c c) (start_c c) (end_c c)
             @ slice_from (text_c c) (end_c c) = text_c c
         \<and> output_str (\<lambda>x. x) c = text_c c"
proof -
  have le: "nat (start_c c) \<le> nat (end_c c)"
    using assms(3) by simp
  have whole: "slice_to (text_c c) (start_c c) @ slice (text_c c) (start_c c) (end_c c)
             @ slice_from (text_c c) (end_c c) = text_c c"
    using assms(2-4) le by (simp add: slices_valid take_mid_drop)
  have "contexts_loop col (p # ps) tr =
           contexts_loop col ps
             (tr @ [Print (''[ Doc = '' @ doc_id p @ '' ]''),
                    Print (slice_to (text_c c) (start_c c)
                           @ col (slice (text_c c) (start_c c) (end_c c))
                           @ slice_from (text_c c) (end_c c) @ [newline])])"
    using assms(1) by (simp add: output_str_def)
  moreover have "output_str (\<lambda>x. x) c = text_c c"
    using whole by (simp add: output_str_def)
  ultimately show ?thesis
    using whole slices_valid [OF assms(2-4)] by simp
qed

theorem context_view_slices_witness:
  "context_p paris = Some \<lparr>text_c = ''The capital is Paris.'', start_c = 15, end_c = 20\<rparr>
   \<and> (contexts_loop (colored example_env) [paris] [] :: (string failure + unit) \<times> event list) =
       (Inr (), [Print ''[ Doc = France ]'',
                 Print (''The capital is <b>Paris</b>.'' @ [newline])])
   \<and> output_str (\<lambda>x. x) \<lparr>text_c = ''The capital is Paris.'', start_c = 15, end_c = 20\<rparr>
       = ''The capital is Paris.''"
proof -
  let ?c = "\<lparr>text_c = ''The capital is Paris.'', start_c = 15, end_c = 20\<rparr>"
  have h: "context_p paris = Some ?c"
    by (simp add: paris_def)
  have b: "0 \<le> start_c ?c" "start_c ?c \<le> end_c ?c" "end_c ?c \<le> int (length (text_c ?c))"
    by simp_all
  from context_view_slices [OF h b, of "colored example_env" "[]" "[]"] h show ?thesis
    by (simp add: example_env_def paris_def)
qed

text \<open>
  C5 (as amended). The loop has no branch for a prediction without a context: the lookup of
  the key raises \<^verbatim>\<open>KeyError\<close>. When the predictions before it all have their contexts, the
  loop has printed their views, one document line and one context line each, and nothing
  of the predictions after it. The command then ends with that exception, in the world the
  pipeline call left, having logged the duration and printed the table of all predictions,
  the heading of the contexts and those views.
\<close>

theorem absent_context_raises:
  assumes "list_all (\<lambda>x. context_p x \<noteq> None) ps1" and "context_p p = None"
  shows "contexts_loop col (ps1 @ p # ps2) tr =
           (Inl (KeyError ''context''),
            tr @ concat (map (\<lambda>x. case context_p x of None \<Rightarrow> []
                              | Some c \<Rightarrow> [Print (''[ Doc = '' @ doc_id x @ '' ]''),
                                          Print (output_str col c @ [newline])]) ps1))
         \<and> (pipeline E r q (arg_or 3 tn) (arg_or (n_docs_default r) nd) True (world s)
               = (Inr (ps1 @ p # ps2), w1) \<longrightarrow>
             process E r q tn nd s =
               (Inl (KeyError ''context''),
                \<lparr>world = w1,
                 trace = trace s @ [Called q (arg_or 3 tn) (arg_or (n_docs_default r) nd) True,
                    LogInfo (''Processed 1 query in ''
                       @ fmt_4f E (time_time E w1 - time_time E (world s)) @ '' (s)''),
                    Print ''Top Predictions:'',
                    PrintTable field_names (add_rows (fmt_5g E) 1 (ps1 @ p # ps2) []),
                    Print (newline # ''Contexts:'')]
                   @ concat (map (\<lambda>x. case context_p x of None \<Rightarrow> []
                              | Some c \<Rightarrow> [Print (''[ Doc = '' @ doc_id x @ '' ]''),
                                          Print (output_str (colored E) c @ [newline])]) ps1)\<rparr>))"
proof -
  have loop: "contexts_loop col' (ps1 @ p # ps2) tr' =
           (Inl (KeyError ''context''),
            tr' @ concat (map (\<lambda>x. case context_p x of None \<Rightarrow> []
                              | Some c \<Rightarrow> [Print (''[ Doc = '' @ doc_id x @ '' ]''),
                                          Print (output_str col' c @ [newline])]) ps1))" for col' tr'
    using assms contexts_loop_append [of col' ps1 tr' "p # ps2"]
    by (simp add: contexts_loop_views)
  show ?thesis
  proof (intro conjI impI)
    show "contexts_loop col (ps1 @ p # ps2) tr =
           (Inl (KeyError ''context''),
            tr @ concat (map (\<lambda>x. case context_p x of None \<Rightarrow> []
                              | Some c \<Rightarrow> [Print (''[ Doc = '' @ doc_id x @ '' ]''),
                                          Print (output_str col c @ [newline])]) ps1))"
      by (rule loop)
  next
    assume "pipeline E r q (arg_or 3 tn) (arg_or (n_docs_default r) nd) True (world s)
               = (Inr (ps1 @ p # ps2), w1)"
    then show "process E r q tn nd s =
               (Inl (KeyError ''context''),
                \<lparr>world = w1,
                 trace = trace s @ [Called q (arg_or 3 tn) (arg_or (n_docs_default r) nd) True,
                    LogInfo (''Processed 1 query in ''
                       @ fmt_4f E (time_time E w1 - time_time E (world s)) @ '' (s)''),
                    Print ''Top Predictions:'',
                    PrintTable field_names (add_rows (fmt_5g E) 1 (ps1 @ p # ps2) []),
                    Print (newline # ''Contexts:'')]
                   @ concat (map (\<lambda>x. case context_p x of None \<Rightarrow> []
                              | Some c \<Rightarrow> [Print (''[ Doc = '' @ doc_id x @ '' ]''),
                                          Print (output_str (colored E) c @ [newline])]) ps1)\<rparr>)"
      by (simp add: process_def Let_def loop)
  qed
qed

theorem absent_context_raises_witness:
  "list_all (\<lambda>x. context_p x \<noteq> None) [paris] \<and> context_p (lyon\<lparr>context_p := None\<rparr>) = None
   \<and> pipeline careless_env Tfidf ''Capital of France?'' (arg_or 3 None)
       (arg_or (n_docs_default Tfidf) None) True (world start_state) =
       (Inr ([paris] @ lyon\<lparr>context_p := None\<rparr> # [paris]), 1)
   \<and> process careless_env Tfidf ''Capital of France?'' None None start_state =
       (Inl (KeyError ''context''),
        \<lparr>world = 1,
         trace = [Called ''Capital of France?'' 3 5 True,
                  LogInfo ''Processed 1 query in 1.0000 (s)'',
                  Print ''Top Predictions:'',
                  PrintTable field_names
                    [[IntCell 1, StrCell ''Paris'', StrCell ''France'', StrCell ''0.5'', StrCell ''10''],
                     [IntCell 2, StrCell ''Lyon'', StrCell ''Rhone'', StrCell ''0.5'', StrCell ''10''],
                     [IntCell 3, StrCell ''Paris'', StrCell ''France'', StrCell ''0.5'', StrCell ''10'']],
                  Print (newline # ''Contexts:''),
                  Print ''[ Doc = France ]'',
                  Print (''The capital is <b>Paris</b>.'' @ [newline])]\<rparr>)"
proof -
  have a: "list_all (\<lambda>x. context_p x \<noteq> None) [paris]"
    by (simp add: paris_def)
  have b: "context_p (lyon\<lparr>context_p := None\<rparr>) = None"
    by simp
  have h: "pipeline careless_env Tfidf ''Capital of France?'' (arg_or 3 None)
       (arg_or (n_docs_default Tfidf) None) True (world start_state) =
       (Inr ([paris] @ lyon\<lparr>context_p := None\<rparr> # [paris]), 1)"
    by (simp add: pipeline_def careless_env_def careless_backend_def start_state_def)
  from absent_context_raises [OF a b, where E = careless_env and r = Tfidf
         and q = "''Capital of France?''" and tn = None and nd = None and s = start_state
         and ?ps2.0 = "[paris]" and ?w1.0 = 1] h
  have "process careless_env Tfidf ''Capital of France?'' None None start_state =
       (Inl (KeyError ''context''),
        \<lparr>world = 1,
         trace = [Called ''Capital of France?'' 3 5 True,
                  LogInfo ''Processed 1 query in 1.0000 (s)'',
                  Print ''Top Predictions:'',
                  PrintTable field_names
                    [[IntCell 1, StrCell ''Paris'', StrCell ''France'', StrCell ''0.5'', StrCell ''10''],
                     [IntCell 2, StrCell ''Lyon'', StrCell ''Rhone'', StrCell ''0.5'', StrCell ''10''],
                     [IntCell 3, StrCell ''Paris'', StrCell ''France'', StrCell ''0.5'', StrCell ''10'']],
                  Print (newline # ''Contexts:''),
                  Print ''[ Doc = France ]'',
                  Print (''The capital is <b>Paris</b>.'' @ [newline])]\<rparr>)"
    by (simp add: start_state_def arg_or_def n_docs_default_def careless_env_def example_env_def
        paris_def lyon_def output_str_def slice_to_def slice_def slice_from_def adjust_index_def)
  with a b h show ?thesis by simp
qed

text \<open>
  C5 as stated has the renderer skip such a prediction and go on. In the loop, the first of
  two predictions has no context: the loop ends with \<^verbatim>\<open>KeyError\<close> and has printed nothing,
  not even the view of the second prediction, whose context is there. In the command, on a
  pipeline whose second prediction of three has no context: the command ends with
  \<^verbatim>\<open>KeyError\<close>, and the view of the third prediction is never printed.
\<close>

theorem absent_context_counterexample:
  "(contexts_loop (colored example_env) [paris\<lparr>context_p := None\<rparr>, lyon] []
      :: (string failure + unit) \<times> event list) = (Inl (KeyError ''context''), [])
   \<and> process careless_env Tfidf ''Capital of France?'' None None start_state =
       (Inl (KeyError ''context''),
        \<lparr>world = 1,
         trace = [Called ''Capital of France?'' 3 5 True,
                  LogInfo ''Processed 1 query in 1.0000 (s)'',
                  Print ''Top Predictions:'',
                  PrintTable field_names
                    [[IntCell 1, StrCell ''Paris'', StrCell ''France'', StrCell ''0.5'', StrCell ''10''],
                     [IntCell 2, StrCell ''Lyon'', StrCell ''Rhone'', StrCell ''0.5'', StrCell ''10''],
                     [IntCell 3, StrCell ''Paris'', StrCell ''France'', StrCell ''0.5'', StrCell ''10'']],
                  Print (newline # ''Contexts:''),
                  Print ''[ Doc = France ]'',
                  Print (''The capital is <b>Paris</b>.'' @ [newline])]\<rparr>)"
  by (simp add: process_def pipeline_def careless_env_def careless_backend_def example_env_def
      start_state_def arg_or_def n_docs_default_def paris_def lyon_def output_str_def
      slice_to_def slice_def slice_from_def adjust_index_def)

subsection \<open>The console\<close>

text \<open>
  C9 (as amended). The script defines exactly two functions, \<^verbatim>\<open>process\<close> with the defaults
  of its signature and \<^verbatim>\<open>usage\<close>, which prints the fixed banner. The console is given the
  whole namespace of the script, so these two are not the only callables the operator
  reaches: the imported \<^verbatim>\<open>colored\<close>, \<^verbatim>\<open>DrQATransformers\<close> and
  \<^verbatim>\<open>PyseriniTransformersQA\<close> are there as well.
\<close>

theorem console_commands:
  "defined_commands = [''process'', ''usage'']
   \<and> exposed_callables =
       [''colored'', ''DrQATransformers'', ''PyseriniTransformersQA'', ''process'', ''usage'']
   \<and> usage s = s\<lparr>trace := trace s @ [Print banner]\<rparr>
   \<and> process E r q None None s = process E r q (Some 3) (Some (n_docs_default r)) s"
  by (simp add: defined_commands_def exposed_callables_def shell_locals_def callable_def
      usage_def process_def arg_or_def)

text \<open>
  C9 as stated has no callable in the console besides the two commands; \<^verbatim>\<open>colored\<close> is one.
\<close>

theorem console_callables_counterexample:
  "exposed_callables \<noteq> [''process'', ''usage''] \<and> ''colored'' \<in> set exposed_callables"
  by (simp add: exposed_callables_def shell_locals_def callable_def)


end
